theory Spec2Isabelle
  imports Complex_Main "HOL-Library.Char_ord"
begin

section \<open>Sprite2Beads: the palette nearest-colour engine\<close>

text \<open>
  A shallow embedding of the classes \<^verbatim>\<open>BeadColor\<close> and \<^verbatim>\<open>BeadPalette\<close> of
  \<^verbatim>\<open>Sprite2Beads.py\<close>.

  \<^item> Python's \<^verbatim>\<open>int\<close> is \<open>int\<close>; an RGB tuple is a triple of them.
  \<^item> A value of Python's \<^verbatim>\<open>float\<close> is a \<open>real\<close>, and the constant
    \<^verbatim>\<open>float('inf')\<close> is a constructor of its own. The distances are written twice.
    The functions named as in the source compute in exact arithmetic: they give the
    formulas. The functions with the suffix \<open>_fl\<close> compute as the doubles do: the
    result of every float operation, of every conversion from an integer and of every
    decimal literal passes through a rounding function \<open>rnd\<close>, a parameter of the
    model, and \<^verbatim>\<open>get_closest\<close> compares these rounded distances. With the rounding
    \<open>exact\<close>, which changes nothing, the second family is the first. Overflow is not
    modelled.
  \<^item> An exception is a value of type \<open>error\<close>, named after its class; a method that
    may raise returns \<open>error + 'a\<close>.
  \<^item> The cache fields \<^verbatim>\<open>yuv\<close> and \<^verbatim>\<open>hsv\<close> of an entry are mutated by the distance
    methods, so every method that may touch them returns the entry (or the palette) as
    it is after the call, next to its result, also when it raises.
  \<^item> A colour-space tag is a \<open>string\<close> of ASCII characters.
\<close>

subsection \<open>Data\<close>

type_synonym rgb = "int \<times> int \<times> int"

type_synonym coords = "real \<times> real \<times> real"

datatype error = ValueError | ZeroDivisionError

datatype pyfloat = Fin real | PInf

record BeadColor =
  name :: string
  rgb :: rgb
  yuv :: "coords option"
  hsv :: "coords option"

type_synonym BeadPalette = "BeadColor list"

text \<open>\<^verbatim>\<open>BeadColor.__init__\<close>: both caches start unset.\<close>

definition BeadColor_init :: "string \<Rightarrow> rgb \<Rightarrow> BeadColor" where
  "BeadColor_init n c = \<lparr>name = n, rgb = c, yuv = None, hsv = None\<rparr>"

text \<open>\<^verbatim>\<open>BeadPalette.__init__\<close> and \<^verbatim>\<open>BeadPalette.add\<close>.\<close>

definition BeadPalette_init :: BeadPalette where
  "BeadPalette_init = []"

definition add :: "BeadPalette \<Rightarrow> BeadColor \<Rightarrow> BeadPalette" where
  "add palette color = palette @ [color]"

subsection \<open>Library functions the source calls\<close>

text \<open>
  \<^verbatim>\<open>math.sqrt\<close>: raises \<^verbatim>\<open>ValueError\<close> (a math domain error) on a negative argument.
\<close>

definition math_sqrt :: "real \<Rightarrow> error + real" where
  "math_sqrt x = (if x < 0 then Inl ValueError else Inr (sqrt x))"

text \<open>
  \<^verbatim>\<open>str.upper\<close> on ASCII text: the letters a to z move to A to Z, every other
  character stays.
\<close>

definition upper_char :: "char \<Rightarrow> char" where
  "upper_char c =
     (if CHR ''a'' \<le> c \<and> c \<le> CHR ''z'' then char_of (of_char c - (32::nat)) else c)"

definition upper :: "string \<Rightarrow> string" where
  "upper s = map upper_char s"

text \<open>
  \<^verbatim>\<open>colorsys.rgb_to_hsv\<close> of the Python standard library, on floats:
  \<^verbatim>\<open>
  maxc = max(r, g, b); minc = min(r, g, b); rangec = maxc - minc; v = maxc
  if minc == maxc: return 0.0, 0.0, v
  s = rangec / maxc
  rc = (maxc-r) / rangec; gc = (maxc-g) / rangec; bc = (maxc-b) / rangec
  if r == maxc: h = bc-gc
  elif g == maxc: h = 2.0+rc-bc
  else: h = 4.0+gc-rc
  h = (h/6.0) % 1.0
  return h, s, v
  \<close>
  The only division that can fail is the one by \<^verbatim>\<open>maxc\<close> (\<^verbatim>\<open>rangec\<close> is not zero on
  that path); \<^verbatim>\<open>x % 1.0\<close> is the fractional part.
\<close>

definition rgb_to_hsv :: "real \<Rightarrow> real \<Rightarrow> real \<Rightarrow> error + coords" where
  "rgb_to_hsv r g b =
     (let maxc = max r (max g b);
          minc = min r (min g b);
          rangec = maxc - minc;
          v = maxc
      in if minc = maxc then Inr (0, 0, v)
         else if maxc = 0 then Inl ZeroDivisionError
         else
           let s = rangec / maxc;
               rc = (maxc - r) / rangec;
               gc = (maxc - g) / rangec;
               bc = (maxc - b) / rangec;
               h = (if r = maxc then bc - gc
                    else if g = maxc then 2 + rc - bc
                    else 4 + gc - rc)
           in Inr (frac (h / 6), s, v))"

text \<open>\<^verbatim>\<open>ImageColor.getrgb\<close> at the two names the source passes.\<close>

definition black :: rgb where
  "black = (0, 0, 0)"

definition white :: rgb where
  "white = (255, 255, 255)"

subsection \<open>\<^verbatim>\<open>BeadColor\<close>: conversions\<close>

definition rgb2yuv :: "rgb \<Rightarrow> coords" where
  "rgb2yuv c =
     (case c of (r, g, b) \<Rightarrow>
        let y = 0.299 * real_of_int r + 0.587 * real_of_int g + 0.114 * real_of_int b;
            u = 0.492 * (real_of_int b - y);
            v = 0.877 * (real_of_int r - y)
        in (y, u, v))"

definition rgb2hsv :: "rgb \<Rightarrow> error + coords" where
  "rgb2hsv c =
     (case c of (r, g, b) \<Rightarrow>
        (case rgb_to_hsv (real_of_int r / 255) (real_of_int g / 255) (real_of_int b / 255) of
           Inl e \<Rightarrow> Inl e
         | Inr (h, s, v) \<Rightarrow> Inr (h * 360, s, v)))"

subsection \<open>\<^verbatim>\<open>BeadColor\<close>: the three distances\<close>

text \<open>
  In each of them \<open>self\<close> is the palette entry and \<open>rgb2\<close> the query colour (the
  source unpacks it into \<^verbatim>\<open>r2, g2, b2\<close>). The YUV and the HSV distance first fill the
  entry's cache when it is unset, then read the entry's coordinates from the cache.
\<close>

definition distance_rgb :: "rgb \<Rightarrow> BeadColor \<Rightarrow> (error + real) \<times> BeadColor" where
  "distance_rgb rgb2 self =
     (case rgb self of (r1, g1, b1) \<Rightarrow>
      case rgb2 of (r2, g2, b2) \<Rightarrow>
        let rmean = real_of_int r1 + real_of_int r2 / 2;
            dr = real_of_int ((r1 - r2) ^ 2);
            dg = real_of_int ((g1 - g2) ^ 2);
            db = real_of_int ((b1 - b2) ^ 2)
        in (math_sqrt (((2 + rmean / 256) * dr) + (4 * dg) + ((2 + (255 - rmean) / 256) * db)),
            self))"

definition distance_yuv :: "rgb \<Rightarrow> BeadColor \<Rightarrow> (error + real) \<times> BeadColor" where
  "distance_yuv rgb2 self =
     (case (case yuv self of
              None \<Rightarrow> (rgb2yuv (rgb self), self\<lparr>yuv := Some (rgb2yuv (rgb self))\<rparr>)
            | Some t \<Rightarrow> (t, self)) of
        ((y1, u1, v1), self1) \<Rightarrow>
          (case rgb2yuv rgb2 of (y2, u2, v2) \<Rightarrow>
             (math_sqrt ((y1 - y2) ^ 2 + (u1 - u2) ^ 2 + (v1 - v2) ^ 2), self1)))"

definition distance_hsv :: "rgb \<Rightarrow> BeadColor \<Rightarrow> (error + real) \<times> BeadColor" where
  "distance_hsv rgb2 self =
     (case (case hsv self of
              None \<Rightarrow> (case rgb2hsv (rgb self) of
                         Inl e \<Rightarrow> Inl e
                       | Inr t \<Rightarrow> Inr (t, self\<lparr>hsv := Some t\<rparr>))
            | Some t \<Rightarrow> Inr (t, self)) of
        Inl e \<Rightarrow> (Inl e, self)
      | Inr ((h1, s1, v1), self1) \<Rightarrow>
          (case rgb2hsv rgb2 of
             Inl e \<Rightarrow> (Inl e, self1)
           | Inr (h2, s2, v2) \<Rightarrow>
               let dh = min \<bar>h2 - h1\<bar> (360 - \<bar>h2 - h1\<bar>) / 180;
                   ds = \<bar>s2 - s1\<bar>;
                   dv = \<bar>v2 - v1\<bar>
               in (math_sqrt (dh * dh + ds * ds + dv * dv), self1)))"

definition get_distance :: "string \<Rightarrow> rgb \<Rightarrow> BeadColor \<Rightarrow> (error + real) \<times> BeadColor" where
  "get_distance color_space rgb2 self =
     (let tag = upper color_space
      in if tag = ''RGB'' then distance_rgb rgb2 self
         else if tag = ''YUV'' then distance_yuv rgb2 self
         else if tag = ''HSV'' then distance_hsv rgb2 self
         else (Inl ValueError, self))"

definition get_textcolor :: "BeadColor \<Rightarrow> rgb" where
  "get_textcolor self =
     (case rgb self of (r, g, b) \<Rightarrow> if r + g + b > 128 * 3 then black else white)"

subsection \<open>The same functions in the arithmetic of doubles\<close>

text \<open>
  In a double computation every operation returns the rounded exact result:
  \<^verbatim>\<open>a + b\<close> is \<open>rnd (a + b)\<close>, and so on for \<^verbatim>\<open>-\<close>, \<^verbatim>\<open>*\<close>, \<^verbatim>\<open>/\<close>, \<^verbatim>\<open>** 2\<close> and
  \<^verbatim>\<open>math.sqrt\<close>. An integer operand of a float operation is converted first
  (\<open>rnd (of_int n)\<close>), a decimal literal is the rounded decimal (\<open>rnd 0.299\<close>), and the
  quotient of two integers (\<^verbatim>\<open>r/255\<close>, \<^verbatim>\<open>r2 / 2\<close>) is the rounded exact quotient. The
  small integer literals (2, 4, 6, 180, 255, 256, 360) are doubles as they stand.
  \<^verbatim>\<open>max\<close>, \<^verbatim>\<open>min\<close>, \<^verbatim>\<open>abs\<close> and the comparisons do not round.
\<close>

definition exact :: "real \<Rightarrow> real" where
  "exact x = x"

definition math_sqrt_fl :: "(real \<Rightarrow> real) \<Rightarrow> real \<Rightarrow> error + real" where
  "math_sqrt_fl rnd x = (if x < 0 then Inl ValueError else Inr (rnd (sqrt x)))"

text \<open>
  \<^verbatim>\<open>x % 1.0\<close> on doubles: the remainder of the division by 1 is exact; when it is
  negative, 1.0 is added to it, and this sum is rounded.
\<close>

definition float_mod1 :: "(real \<Rightarrow> real) \<Rightarrow> real \<Rightarrow> real" where
  "float_mod1 rnd x = (if 0 \<le> x \<or> frac x = 0 then frac x else rnd (frac x))"

text \<open>
  \<^verbatim>\<open>colorsys.rgb_to_hsv\<close>. Two divisions can fail here, the one by \<^verbatim>\<open>maxc\<close> and then
  the ones by \<^verbatim>\<open>rangec\<close>, a rounded difference.
\<close>

definition rgb_to_hsv_fl :: "(real \<Rightarrow> real) \<Rightarrow> real \<Rightarrow> real \<Rightarrow> real \<Rightarrow> error + coords" where
  "rgb_to_hsv_fl rnd r g b =
     (let maxc = max r (max g b);
          minc = min r (min g b);
          rangec = rnd (maxc - minc);
          v = maxc
      in if minc = maxc then Inr (0, 0, v)
         else if maxc = 0 then Inl ZeroDivisionError
         else if rangec = 0 then Inl ZeroDivisionError
         else
           let s = rnd (rangec / maxc);
               rc = rnd (rnd (maxc - r) / rangec);
               gc = rnd (rnd (maxc - g) / rangec);
               bc = rnd (rnd (maxc - b) / rangec);
               h = (if r = maxc then rnd (bc - gc)
                    else if g = maxc then rnd (rnd (2 + rc) - bc)
                    else rnd (rnd (4 + gc) - rc))
           in Inr (float_mod1 rnd (rnd (h / 6)), s, v))"

definition rgb2yuv_fl :: "(real \<Rightarrow> real) \<Rightarrow> rgb \<Rightarrow> coords" where
  "rgb2yuv_fl rnd c =
     (case c of (r, g, b) \<Rightarrow>
        let y = rnd (rnd (rnd (rnd 0.299 * rnd (real_of_int r))
                          + rnd (rnd 0.587 * rnd (real_of_int g)))
                     + rnd (rnd 0.114 * rnd (real_of_int b)));
            u = rnd (rnd 0.492 * rnd (rnd (real_of_int b) - y));
            v = rnd (rnd 0.877 * rnd (rnd (real_of_int r) - y))
        in (y, u, v))"

definition rgb2hsv_fl :: "(real \<Rightarrow> real) \<Rightarrow> rgb \<Rightarrow> error + coords" where
  "rgb2hsv_fl rnd c =
     (case c of (r, g, b) \<Rightarrow>
        (case rgb_to_hsv_fl rnd (rnd (real_of_int r / 255)) (rnd (real_of_int g / 255))
                (rnd (real_of_int b / 255)) of
           Inl e \<Rightarrow> Inl e
         | Inr (h, s, v) \<Rightarrow> Inr (rnd (h * 360), s, v)))"

definition distance_rgb_fl ::
  "(real \<Rightarrow> real) \<Rightarrow> rgb \<Rightarrow> BeadColor \<Rightarrow> (error + real) \<times> BeadColor" where
  "distance_rgb_fl rnd rgb2 self =
     (case rgb self of (r1, g1, b1) \<Rightarrow>
      case rgb2 of (r2, g2, b2) \<Rightarrow>
        let rmean = rnd (rnd (real_of_int r1) + rnd (real_of_int r2 / 2));
            dr = (r1 - r2) ^ 2;
            dg = (g1 - g2) ^ 2;
            db = (b1 - b2) ^ 2
        in (math_sqrt_fl rnd
              (rnd (rnd (rnd (rnd (2 + rnd (rmean / 256)) * rnd (real_of_int dr))
                         + rnd (real_of_int (4 * dg)))
                    + rnd (rnd (2 + rnd (rnd (255 - rmean) / 256)) * rnd (real_of_int db)))),
            self))"

definition distance_yuv_fl ::
  "(real \<Rightarrow> real) \<Rightarrow> rgb \<Rightarrow> BeadColor \<Rightarrow> (error + real) \<times> BeadColor" where
  "distance_yuv_fl rnd rgb2 self =
     (case (case yuv self of
              None \<Rightarrow> (rgb2yuv_fl rnd (rgb self), self\<lparr>yuv := Some (rgb2yuv_fl rnd (rgb self))\<rparr>)
            | Some t \<Rightarrow> (t, self)) of
        ((y1, u1, v1), self1) \<Rightarrow>
          (case rgb2yuv_fl rnd rgb2 of (y2, u2, v2) \<Rightarrow>
             (math_sqrt_fl rnd
                (rnd (rnd (rnd ((rnd (y1 - y2)) ^ 2) + rnd ((rnd (u1 - u2)) ^ 2))
                      + rnd ((rnd (v1 - v2)) ^ 2))),
              self1)))"

definition distance_hsv_fl ::
  "(real \<Rightarrow> real) \<Rightarrow> rgb \<Rightarrow> BeadColor \<Rightarrow> (error + real) \<times> BeadColor" where
  "distance_hsv_fl rnd rgb2 self =
     (case (case hsv self of
              None \<Rightarrow> (case rgb2hsv_fl rnd (rgb self) of
                         Inl e \<Rightarrow> Inl e
                       | Inr t \<Rightarrow> Inr (t, self\<lparr>hsv := Some t\<rparr>))
            | Some t \<Rightarrow> Inr (t, self)) of
        Inl e \<Rightarrow> (Inl e, self)
      | Inr ((h1, s1, v1), self1) \<Rightarrow>
          (case rgb2hsv_fl rnd rgb2 of
             Inl e \<Rightarrow> (Inl e, self1)
           | Inr (h2, s2, v2) \<Rightarrow>
               let dh = rnd (min \<bar>rnd (h2 - h1)\<bar> (rnd (360 - \<bar>rnd (h2 - h1)\<bar>)) / 180);
                   ds = \<bar>rnd (s2 - s1)\<bar>;
                   dv = \<bar>rnd (v2 - v1)\<bar>
               in (math_sqrt_fl rnd (rnd (rnd (rnd (dh * dh) + rnd (ds * ds)) + rnd (dv * dv))),
                   self1)))"

definition get_distance_fl ::
  "(real \<Rightarrow> real) \<Rightarrow> string \<Rightarrow> rgb \<Rightarrow> BeadColor \<Rightarrow> (error + real) \<times> BeadColor" where
  "get_distance_fl rnd color_space rgb2 self =
     (let tag = upper color_space
      in if tag = ''RGB'' then distance_rgb_fl rnd rgb2 self
         else if tag = ''YUV'' then distance_yuv_fl rnd rgb2 self
         else if tag = ''HSV'' then distance_hsv_fl rnd rgb2 self
         else (Inl ValueError, self))"

subsection \<open>\<^verbatim>\<open>BeadPalette.get_closest\<close>\<close>

text \<open>\<^verbatim>\<open>distance < min_distance\<close>, the right side possibly \<^verbatim>\<open>float('inf')\<close>.\<close>

fun float_less :: "real \<Rightarrow> pyfloat \<Rightarrow> bool" where
  "float_less d PInf = True"
| "float_less d (Fin m) = (d < m)"

text \<open>
  The \<^verbatim>\<open>for\<close> loop, over the entries still to visit, with the two loop variables
  \<^verbatim>\<open>min_distance\<close> and \<^verbatim>\<open>best_color\<close>. It returns what \<^verbatim>\<open>get_closest\<close> returns or
  raises, and the visited entries as the calls left them. \<^verbatim>\<open>best_color\<close> is a
  reference to an entry of the palette: it is the entry as it is after its own
  distance call, the only call of the loop that touches it.
\<close>

fun closest_loop ::
  "(real \<Rightarrow> real) \<Rightarrow> string \<Rightarrow> rgb \<Rightarrow> BeadColor list \<Rightarrow> pyfloat \<Rightarrow> BeadColor option
     \<Rightarrow> (error + BeadColor option) \<times> BeadColor list" where
  "closest_loop rnd color_space rgb2 [] min_distance best_color = (Inr best_color, [])"
| "closest_loop rnd color_space rgb2 (color # rest) min_distance best_color =
     (case get_distance_fl rnd color_space rgb2 color of
        (Inl e, color1) \<Rightarrow> (Inl e, color1 # rest)
      | (Inr distance, color1) \<Rightarrow>
          (case (if float_less distance min_distance
                 then closest_loop rnd color_space rgb2 rest (Fin distance) (Some color1)
                 else closest_loop rnd color_space rgb2 rest min_distance best_color) of
             (res, rest1) \<Rightarrow> (res, color1 # rest1)))"

definition get_closest_fl ::
  "(real \<Rightarrow> real) \<Rightarrow> string \<Rightarrow> rgb \<Rightarrow> BeadPalette \<Rightarrow> (error + BeadColor option) \<times> BeadPalette" where
  "get_closest_fl rnd color_space rgb2 palette = closest_loop rnd color_space rgb2 palette PInf None"

text \<open>\<^verbatim>\<open>get_closest\<close> in exact arithmetic.\<close>

definition get_closest ::
  "string \<Rightarrow> rgb \<Rightarrow> BeadPalette \<Rightarrow> (error + BeadColor option) \<times> BeadPalette" where
  "get_closest color_space rgb2 palette = get_closest_fl exact color_space rgb2 palette"

subsection \<open>Vocabulary of the statements\<close>

text \<open>An RGB triple with every component in \<open>[0, 255]\<close>.\<close>

definition in_range :: "rgb \<Rightarrow> bool" where
  "in_range c = (case c of (r, g, b) \<Rightarrow>
     0 \<le> r \<and> r \<le> 255 \<and> 0 \<le> g \<and> g \<le> 255 \<and> 0 \<le> b \<and> b \<le> 255)"

text \<open>
  The letter-case variants of a word, written out letter by letter: each letter in its
  upper-case or its lower-case form.
\<close>

fun case_variants :: "(char \<times> char) list \<Rightarrow> string list" where
  "case_variants [] = [[]]"
| "case_variants ((u, l) # ps) = concat (map (\<lambda>w. [u # w, l # w]) (case_variants ps))"

definition rgb_tags :: "string list" where
  "rgb_tags = case_variants [(CHR ''R'', CHR ''r''), (CHR ''G'', CHR ''g''), (CHR ''B'', CHR ''b'')]"

definition yuv_tags :: "string list" where
  "yuv_tags = case_variants [(CHR ''Y'', CHR ''y''), (CHR ''U'', CHR ''u''), (CHR ''V'', CHR ''v'')]"

definition hsv_tags :: "string list" where
  "hsv_tags = case_variants [(CHR ''H'', CHR ''h''), (CHR ''S'', CHR ''s''), (CHR ''V'', CHR ''v'')]"

definition valid_tag :: "string \<Rightarrow> bool" where
  "valid_tag t = (t \<in> set rgb_tags \<or> t \<in> set yuv_tags \<or> t \<in> set hsv_tags)"

text \<open>
  An entry whose caches are unset or hold the conversion of the entry's own colour: the
  state of every entry built by \<^verbatim>\<open>BeadColor.__init__\<close> and touched by nothing but the
  distance methods.
\<close>

definition cache_ok :: "BeadColor \<Rightarrow> bool" where
  "cache_ok c =
     ((case yuv c of None \<Rightarrow> True | Some t \<Rightarrow> t = rgb2yuv (rgb c)) \<and>
      (case hsv c of None \<Rightarrow> True | Some t \<Rightarrow> rgb2hsv (rgb c) = Inr t))"

text \<open>
  \<^verbatim>\<open>distance(space, a, b)\<close>: the distance of the query \<open>b\<close> from the palette colour
  \<open>a\<close>, as an entry just built from \<open>a\<close> computes it.
\<close>

definition distance :: "string \<Rightarrow> rgb \<Rightarrow> rgb \<Rightarrow> error + real" where
  "distance color_space a b = fst (get_distance color_space b (BeadColor_init [] a))"

text \<open>A tag made of ASCII characters only, the text \<^verbatim>\<open>upper\<close> is modelled on.\<close>

definition ascii :: "string \<Rightarrow> bool" where
  "ascii s = list_all (\<lambda>c. (of_char c :: nat) < 128) s"

text \<open>
  Two palettes to try the statements on: the one of the specification's round trip, and
  one with two entries of the same colour.
\<close>

definition demo_palette :: BeadPalette where
  "demo_palette =
     add (add BeadPalette_init (BeadColor_init ''red'' (255, 0, 0))) (BeadColor_init ''blue'' (0, 0, 255))"


text \<open>
  What the statements about doubles ask of the rounding function, each a property of
  rounding to the nearest double: it is monotone, it leaves the integers up to \<open>2\<^sup>5\<^sup>3\<close>
  as they are, and the rounded difference of two different doubles is not zero.
\<close>

definition rounding :: "(real \<Rightarrow> real) \<Rightarrow> bool" where
  "rounding rnd =
     ((\<forall>x y. x \<le> y \<longrightarrow> rnd x \<le> rnd y) \<and>
      (\<forall>n::int. \<bar>n\<bar> \<le> 2 ^ 53 \<longrightarrow> rnd (real_of_int n) = real_of_int n) \<and>
      (\<forall>a b. rnd a \<noteq> rnd b \<longrightarrow> rnd (rnd a - rnd b) \<noteq> 0))"

text \<open>\<open>cache_ok\<close> and \<open>distance\<close> for the arithmetic of doubles.\<close>

definition cache_ok_fl :: "(real \<Rightarrow> real) \<Rightarrow> BeadColor \<Rightarrow> bool" where
  "cache_ok_fl rnd c =
     ((case yuv c of None \<Rightarrow> True | Some t \<Rightarrow> t = rgb2yuv_fl rnd (rgb c)) \<and>
      (case hsv c of None \<Rightarrow> True | Some t \<Rightarrow> rgb2hsv_fl rnd (rgb c) = Inr t))"

definition distance_fl :: "(real \<Rightarrow> real) \<Rightarrow> string \<Rightarrow> rgb \<Rightarrow> rgb \<Rightarrow> error + real" where
  "distance_fl rnd color_space a b =
     fst (get_distance_fl rnd color_space b (BeadColor_init [] a))"

text \<open>A run of distance queries against one entry, each leaving the entry to the next.\<close>

fun run_queries :: "(real \<Rightarrow> real) \<Rightarrow> (string \<times> rgb) list \<Rightarrow> BeadColor \<Rightarrow> BeadColor" where
  "run_queries rnd [] self = self"
| "run_queries rnd ((cs, q) # qs) self = run_queries rnd qs (snd (get_distance_fl rnd cs q self))"

section \<open>Auxiliary facts\<close>

subsection \<open>Colour-space tags\<close>

lemma of_char_upper_char:
  "(of_char (upper_char c) :: nat) =
     (if 97 \<le> (of_char c :: nat) \<and> (of_char c :: nat) \<le> 122 then of_char c - 32 else of_char c)"
proof -
  have "(of_char c :: nat) < 256" by simp
  then have "(of_char c - 32 :: nat) mod 256 = of_char c - 32"
    by (simp add: less_imp_diff_less)
  then show ?thesis
    by (simp add: upper_char_def less_eq_char_def)
qed

lemma upper_char_eq_iff:
  assumes "(of_char u :: nat) = k" and "65 \<le> k" and "k \<le> 90"
  shows "upper_char c = u \<longleftrightarrow> (of_char c :: nat) = k \<or> (of_char c :: nat) = k + 32"
proof -
  have "upper_char c = u \<longleftrightarrow> (of_char (upper_char c) :: nat) = of_char u"
    by (simp only: of_char_eq_iff)
  also have "\<dots> \<longleftrightarrow> (of_char c :: nat) = k \<or> (of_char c :: nat) = k + 32"
    using assms by (auto simp: of_char_upper_char)
  finally show ?thesis .
qed

lemma char_eq_code: "c = d \<longleftrightarrow> (of_char c :: nat) = of_char d"
  by (simp only: of_char_eq_iff)

lemma upper_char_letter:
  assumes "(of_char u :: nat) = k" and "(of_char l :: nat) = k + 32" and "65 \<le> k" and "k \<le> 90"
  shows "upper_char c = u \<longleftrightarrow> c = u \<or> c = l"
  using upper_char_eq_iff [OF assms(1,3,4), of c] assms(1,2)
  by (simp add: char_eq_code [of c u] char_eq_code [of c l])

lemmas upper_letters =
  upper_char_letter [of "CHR ''R''" 82 "CHR ''r''", simplified]
  upper_char_letter [of "CHR ''G''" 71 "CHR ''g''", simplified]
  upper_char_letter [of "CHR ''B''" 66 "CHR ''b''", simplified]
  upper_char_letter [of "CHR ''Y''" 89 "CHR ''y''", simplified]
  upper_char_letter [of "CHR ''U''" 85 "CHR ''u''", simplified]
  upper_char_letter [of "CHR ''V''" 86 "CHR ''v''", simplified]
  upper_char_letter [of "CHR ''H''" 72 "CHR ''h''", simplified]
  upper_char_letter [of "CHR ''S''" 83 "CHR ''s''", simplified]

lemma case_variants_iff:
  "s \<in> set (case_variants ps) \<longleftrightarrow> list_all2 (\<lambda>c p. c = fst p \<or> c = snd p) s ps"
proof (induction ps arbitrary: s)
  case Nil
  then show ?case by simp
next
  case (Cons p ps)
  obtain u l where p: "p = (u, l)" by (cases p)
  show ?case
    by (cases s) (auto simp: p Cons.IH)
qed

lemma upper_eq_iff:
  "upper s = t \<longleftrightarrow> list_all2 (\<lambda>c u. upper_char c = u) s t"
  unfolding upper_def by (induction s arbitrary: t) (auto simp: list_all2_Cons1)

lemma upper_rgb_iff: "upper s = ''RGB'' \<longleftrightarrow> s \<in> set rgb_tags"
  unfolding upper_eq_iff case_variants_iff rgb_tags_def
  by (simp add: list_all2_Cons2 upper_letters)

lemma upper_yuv_iff: "upper s = ''YUV'' \<longleftrightarrow> s \<in> set yuv_tags"
  unfolding upper_eq_iff case_variants_iff yuv_tags_def
  by (simp add: list_all2_Cons2 upper_letters)

lemma upper_hsv_iff: "upper s = ''HSV'' \<longleftrightarrow> s \<in> set hsv_tags"
  unfolding upper_eq_iff case_variants_iff hsv_tags_def
  by (simp add: list_all2_Cons2 upper_letters)

lemma canonical_tags: "''RGB'' \<in> set rgb_tags" "''YUV'' \<in> set yuv_tags" "''HSV'' \<in> set hsv_tags"
  by (simp_all add: rgb_tags_def yuv_tags_def hsv_tags_def)

subsection \<open>Exact arithmetic: the RGB radicand, the HSV conversion, the values\<close>

lemma rgb_weights_pos:
  assumes "0 \<le> r1" "r1 \<le> 255" "0 \<le> r2" "r2 \<le> 255"
  shows "0 < 2 + (real_of_int r1 + real_of_int r2 / 2) / 256"
    and "0 < 2 + (255 - (real_of_int r1 + real_of_int r2 / 2)) / 256"
proof -
  have a: "0 \<le> real_of_int r1" "real_of_int r1 \<le> 255" "0 \<le> real_of_int r2" "real_of_int r2 \<le> 255"
    using assms by simp_all
  show "0 < 2 + (real_of_int r1 + real_of_int r2 / 2) / 256"
    using a by (simp add: field_simps)
  show "0 < 2 + (255 - (real_of_int r1 + real_of_int r2 / 2)) / 256"
    using a by (simp add: field_simps)
qed

lemma rgb_radicand_nonneg:
  assumes "0 \<le> r1" "r1 \<le> 255" "0 \<le> r2" "r2 \<le> 255"
  shows "0 \<le> ((2 + (real_of_int r1 + real_of_int r2 / 2) / 256) * real_of_int ((r1 - r2) ^ 2))
            + (4 * real_of_int ((g1 - g2) ^ 2))
            + ((2 + (255 - (real_of_int r1 + real_of_int r2 / 2)) / 256) * real_of_int ((b1 - b2) ^ 2))"
proof -
  have sq: "0 \<le> real_of_int ((r1 - r2) ^ 2)" "0 \<le> real_of_int ((g1 - g2) ^ 2)"
       "0 \<le> real_of_int ((b1 - b2) ^ 2)"
    by simp_all
  have w: "0 \<le> 2 + (real_of_int r1 + real_of_int r2 / 2) / 256"
       "0 \<le> 2 + (255 - (real_of_int r1 + real_of_int r2 / 2)) / 256"
    using rgb_weights_pos [OF assms] by simp_all
  have "0 \<le> (2 + (real_of_int r1 + real_of_int r2 / 2) / 256) * real_of_int ((r1 - r2) ^ 2)"
    using w(1) sq(1) by (rule mult_nonneg_nonneg)
  moreover have "0 \<le> 4 * real_of_int ((g1 - g2) ^ 2)"
    using sq(2) by simp
  moreover have "0 \<le> (2 + (255 - (real_of_int r1 + real_of_int r2 / 2)) / 256) * real_of_int ((b1 - b2) ^ 2)"
    using w(2) sq(3) by (rule mult_nonneg_nonneg)
  ultimately show ?thesis by linarith
qed

lemma rgb_to_hsv_total:
  assumes "0 \<le> r" "0 \<le> g" "0 \<le> b"
  shows "\<exists>t. rgb_to_hsv r g b = Inr t"
proof (cases "min r (min g b) = max r (max g b)")
  case True
  then show ?thesis by (simp add: rgb_to_hsv_def Let_def)
next
  case False
  then have "max r (max g b) \<noteq> 0" using assms by auto
  with False show ?thesis by (simp add: rgb_to_hsv_def Let_def)
qed

lemma rgb2hsv_total: "in_range c \<Longrightarrow> \<exists>t. rgb2hsv c = Inr t"
proof -
  assume r: "in_range c"
  obtain r g b where c: "c = (r, g, b)" by (cases c) auto
  have "\<exists>t. rgb_to_hsv (real_of_int r / 255) (real_of_int g / 255) (real_of_int b / 255) = Inr t"
    using r c by (intro rgb_to_hsv_total) (simp_all add: in_range_def)
  then show ?thesis
    by (auto simp: rgb2hsv_def c split: sum.splits prod.splits)
qed

lemma math_sqrt_nonneg: "0 \<le> x \<Longrightarrow> math_sqrt x = Inr (sqrt x)"
  by (simp add: math_sqrt_def)

lemma distance_rgb_value:
  assumes "rgb self = (r1, g1, b1)" "0 \<le> r1" "r1 \<le> 255" "0 \<le> r2" "r2 \<le> 255"
  shows "distance_rgb (r2, g2, b2) self =
     (Inr (sqrt (((2 + (real_of_int r1 + real_of_int r2 / 2) / 256) * real_of_int ((r1 - r2) ^ 2))
            + (4 * real_of_int ((g1 - g2) ^ 2))
            + ((2 + (255 - (real_of_int r1 + real_of_int r2 / 2)) / 256) * real_of_int ((b1 - b2) ^ 2)))),
      self)"
  unfolding distance_rgb_def Let_def assms(1) prod.case
  by (simp only: math_sqrt_nonneg [OF rgb_radicand_nonneg [OF assms(2-5)]])

lemma distance_yuv_value:
  assumes "(case yuv self of None \<Rightarrow> rgb2yuv (rgb self) | Some t \<Rightarrow> t) = (y1, u1, v1)"
      and "rgb2yuv rgb2 = (y2, u2, v2)"
  shows "distance_yuv rgb2 self =
     (Inr (sqrt ((y1 - y2) ^ 2 + (u1 - u2) ^ 2 + (v1 - v2) ^ 2)),
      self\<lparr>yuv := Some (y1, u1, v1)\<rparr>)"
  using assms
  by (cases "yuv self") (simp_all add: distance_yuv_def math_sqrt_nonneg)

lemma distance_hsv_value:
  assumes "(case hsv self of None \<Rightarrow> rgb2hsv (rgb self) | Some t \<Rightarrow> Inr t) = Inr (h1, s1, v1)"
      and "rgb2hsv rgb2 = Inr (h2, s2, v2)"
  shows "distance_hsv rgb2 self =
     (Inr (sqrt ((min \<bar>h2 - h1\<bar> (360 - \<bar>h2 - h1\<bar>) / 180) * (min \<bar>h2 - h1\<bar> (360 - \<bar>h2 - h1\<bar>) / 180)
                 + \<bar>s2 - s1\<bar> * \<bar>s2 - s1\<bar> + \<bar>v2 - v1\<bar> * \<bar>v2 - v1\<bar>)),
      self\<lparr>hsv := Some (h1, s1, v1)\<rparr>)"
  using assms
  by (cases "hsv self") (simp_all add: distance_hsv_def Let_def math_sqrt_nonneg)

lemma get_distance_tag:
  "t \<in> set rgb_tags \<Longrightarrow> get_distance t q c = distance_rgb q c"
  "t \<in> set yuv_tags \<Longrightarrow> get_distance t q c = distance_yuv q c"
  "t \<in> set hsv_tags \<Longrightarrow> get_distance t q c = distance_hsv q c"
  "\<not> valid_tag t \<Longrightarrow> get_distance t q c = (Inl ValueError, c)"
  by (simp_all add: get_distance_def Let_def valid_tag_def
        upper_rgb_iff [symmetric] upper_yuv_iff [symmetric] upper_hsv_iff [symmetric])

lemma cache_ok_yuv: "cache_ok c \<Longrightarrow> (case yuv c of None \<Rightarrow> rgb2yuv (rgb c) | Some t \<Rightarrow> t) = rgb2yuv (rgb c)"
  by (simp add: cache_ok_def split: option.splits)

lemma cache_ok_hsv:
  "cache_ok c \<Longrightarrow> rgb2hsv (rgb c) = Inr t \<Longrightarrow>
     (case hsv c of None \<Rightarrow> rgb2hsv (rgb c) | Some t \<Rightarrow> Inr t) = Inr t"
  by (simp add: cache_ok_def split: option.splits)

lemma get_distance_eq_distance:
  "cache_ok c \<Longrightarrow> fst (get_distance t q c) = distance t (rgb c) q"
  unfolding distance_def
  by (auto simp: cache_ok_def BeadColor_init_def get_distance_def Let_def distance_rgb_def
        distance_yuv_def distance_hsv_def split: prod.splits option.splits sum.splits)

lemma rgb2hsv_350: "rgb2hsv (6, 0, 1) = Inr (350, 1, 2 / 85)"
  by (simp add: rgb2hsv_def rgb_to_hsv_def Let_def frac_def)

lemma rgb2hsv_10: "rgb2hsv (6, 1, 0) = Inr (10, 1, 2 / 85)"
  by (simp add: rgb2hsv_def rgb_to_hsv_def Let_def frac_def)

subsection \<open>Doubles: no distance raises on the domain\<close>

lemma rounding_mono: "rounding rnd \<Longrightarrow> x \<le> y \<Longrightarrow> rnd x \<le> rnd y"
  by (simp add: rounding_def)

lemma rounding_int: "rounding rnd \<Longrightarrow> \<bar>n\<bar> \<le> 2 ^ 53 \<Longrightarrow> rnd (real_of_int n) = real_of_int n"
  by (simp add: rounding_def)

lemma rounding_diff: "rounding rnd \<Longrightarrow> rnd a \<noteq> rnd b \<Longrightarrow> rnd (rnd a - rnd b) \<noteq> 0"
  by (simp add: rounding_def)

lemma rounding_small:
  assumes "rounding rnd"
  shows "rnd 0 = 0" "rnd 1 = 1" "rnd (- 1) = - 1" "rnd 128 = 128" "rnd (- 128) = - 128"
        "rnd 383 = 383"
  using rounding_int [OF assms, of 0] rounding_int [OF assms, of 1] rounding_int [OF assms, of "- 1"]
    rounding_int [OF assms, of 128] rounding_int [OF assms, of "- 128"]
    rounding_int [OF assms, of 383]
  by simp_all

lemma rounding_nonneg: "rounding rnd \<Longrightarrow> 0 \<le> x \<Longrightarrow> 0 \<le> rnd x"
  using rounding_mono [of rnd 0 x] rounding_small(1) [of rnd] by simp

lemma rounding_exact: "rounding exact"
  by (simp add: rounding_def exact_def)





lemma rgb_to_hsv_fl_total:
  assumes R: "rounding rnd" and "r = rnd a" "g = rnd b'" "b = rnd c'"
    and "0 \<le> r" "0 \<le> g" "0 \<le> b"
  shows "\<exists>t. rgb_to_hsv_fl rnd r g b = Inr t"
proof (cases "min r (min g b) = max r (max g b)")
  case True
  then show ?thesis by (simp add: rgb_to_hsv_fl_def Let_def)
next
  case False
  then have m0: "max r (max g b) \<noteq> 0" using assms(5-7) by auto
  obtain x where x: "max r (max g b) = rnd x"
    using assms(2-4) by (metis max_def)
  obtain y where y: "min r (min g b) = rnd y"
    using assms(2-4) by (metis min_def)
  have "rnd (max r (max g b) - min r (min g b)) \<noteq> 0"
    using rounding_diff [OF R, of x y] False x y by auto
  with False m0 show ?thesis by (simp add: rgb_to_hsv_fl_def Let_def)
qed

lemma rgb2hsv_fl_total:
  assumes "rounding rnd" and "in_range c"
  shows "\<exists>t. rgb2hsv_fl rnd c = Inr t"
proof -
  obtain r g b where c: "c = (r, g, b)" by (cases c) auto
  have "\<exists>t. rgb_to_hsv_fl rnd (rnd (real_of_int r / 255)) (rnd (real_of_int g / 255))
          (rnd (real_of_int b / 255)) = Inr t"
    using assms(2) c
    by (intro rgb_to_hsv_fl_total [OF assms(1) refl refl refl] rounding_nonneg [OF assms(1)])
       (simp_all add: in_range_def)
  then show ?thesis
    by (auto simp: rgb2hsv_fl_def c split: sum.splits prod.splits)
qed


lemma get_distance_fl_tag:
  "t \<in> set rgb_tags \<Longrightarrow> get_distance_fl rnd t q c = distance_rgb_fl rnd q c"
  "t \<in> set yuv_tags \<Longrightarrow> get_distance_fl rnd t q c = distance_yuv_fl rnd q c"
  "t \<in> set hsv_tags \<Longrightarrow> get_distance_fl rnd t q c = distance_hsv_fl rnd q c"
  "\<not> valid_tag t \<Longrightarrow> get_distance_fl rnd t q c = (Inl ValueError, c)"
  by (simp_all add: get_distance_fl_def Let_def valid_tag_def
        upper_rgb_iff [symmetric] upper_yuv_iff [symmetric] upper_hsv_iff [symmetric])

lemma get_distance_fl_canonical:
  "t \<in> set rgb_tags \<Longrightarrow> get_distance_fl rnd t q c = get_distance_fl rnd ''RGB'' q c"
  "t \<in> set yuv_tags \<Longrightarrow> get_distance_fl rnd t q c = get_distance_fl rnd ''YUV'' q c"
  "t \<in> set hsv_tags \<Longrightarrow> get_distance_fl rnd t q c = get_distance_fl rnd ''HSV'' q c"
  by (simp_all add: get_distance_fl_tag(1-3) canonical_tags)


subsection \<open>Doubles: what a distance call does to the entry\<close>

lemma get_distance_fl_name_rgb:
  "name (snd (get_distance_fl rnd t q c)) = name c \<and> rgb (snd (get_distance_fl rnd t q c)) = rgb c"
  by (simp add: get_distance_fl_def Let_def distance_rgb_fl_def distance_yuv_fl_def
        distance_hsv_fl_def split: prod.splits option.splits sum.splits)

lemma get_distance_fl_cache_ok:
  "cache_ok_fl rnd c \<Longrightarrow> cache_ok_fl rnd (snd (get_distance_fl rnd t q c))"
  by (auto simp: cache_ok_fl_def get_distance_fl_def Let_def distance_rgb_fl_def
        distance_yuv_fl_def distance_hsv_fl_def split: prod.splits option.splits sum.splits)

lemma get_distance_fl_eq_distance:
  "cache_ok_fl rnd c \<Longrightarrow> fst (get_distance_fl rnd t q c) = distance_fl rnd t (rgb c) q"
  unfolding distance_fl_def
  by (auto simp: cache_ok_fl_def BeadColor_init_def get_distance_fl_def Let_def
        distance_rgb_fl_def distance_yuv_fl_def distance_hsv_fl_def
        split: prod.splits option.splits sum.splits)

lemma snd_distance_rgb_fl: "snd (distance_rgb_fl rnd q c) = c"
  by (simp add: distance_rgb_fl_def Let_def split: prod.splits)

lemma snd_distance_yuv_fl:
  "snd (distance_yuv_fl rnd q c) =
     c\<lparr>yuv := Some (case yuv c of None \<Rightarrow> rgb2yuv_fl rnd (rgb c) | Some x \<Rightarrow> x)\<rparr>"
  by (simp add: distance_yuv_fl_def split: prod.splits option.splits)

lemma snd_distance_hsv_fl:
  "snd (distance_hsv_fl rnd q c) =
     (case hsv c of
        None \<Rightarrow> (case rgb2hsv_fl rnd (rgb c) of Inl e \<Rightarrow> c | Inr x \<Rightarrow> c\<lparr>hsv := Some x\<rparr>)
      | Some x \<Rightarrow> c)"
  by (simp add: distance_hsv_fl_def Let_def split: prod.splits option.splits sum.splits)

lemma fst_distance_rgb_fl_cache:
  "fst (distance_rgb_fl rnd q (c\<lparr>yuv := x, hsv := y\<rparr>)) = fst (distance_rgb_fl rnd q c)"
  by (simp add: distance_rgb_fl_def Let_def split: prod.splits)

lemma get_distance_fl_keeps_cache:
  "yuv (snd (get_distance_fl rnd t q (e\<lparr>yuv := Some x\<rparr>))) = Some x"
  "hsv (snd (get_distance_fl rnd t q (e\<lparr>hsv := Some y\<rparr>))) = Some y"
  by (simp_all add: get_distance_fl_def Let_def snd_distance_rgb_fl snd_distance_yuv_fl
        snd_distance_hsv_fl split: option.splits sum.splits)

lemma distance_yuv_fl_cached:
  "fst (distance_yuv_fl rnd q (e\<lparr>yuv := Some (y1, u1, v1)\<rparr>)) =
     (case rgb2yuv_fl rnd q of (y2, u2, v2) \<Rightarrow>
        math_sqrt_fl rnd (rnd (rnd (rnd ((rnd (y1 - y2))\<^sup>2) + rnd ((rnd (u1 - u2))\<^sup>2))
                               + rnd ((rnd (v1 - v2))\<^sup>2))))"
  by (cases "rgb2yuv_fl rnd q") (simp add: distance_yuv_fl_def)

lemma distance_hsv_fl_cached:
  "fst (distance_hsv_fl rnd q (e\<lparr>hsv := Some (h1, s1, v1)\<rparr>)) =
     (case rgb2hsv_fl rnd q of
        Inl err \<Rightarrow> Inl err
      | Inr (h2, s2, v2) \<Rightarrow>
          math_sqrt_fl rnd
            (rnd (rnd (rnd (rnd (min \<bar>rnd (h2 - h1)\<bar> (rnd (360 - \<bar>rnd (h2 - h1)\<bar>)) / 180)
                            * rnd (min \<bar>rnd (h2 - h1)\<bar> (rnd (360 - \<bar>rnd (h2 - h1)\<bar>)) / 180))
                       + rnd (\<bar>rnd (s2 - s1)\<bar> * \<bar>rnd (s2 - s1)\<bar>))
                  + rnd (\<bar>rnd (v2 - v1)\<bar> * \<bar>rnd (v2 - v1)\<bar>))))"
  by (cases "rgb2hsv_fl rnd q") (auto simp: distance_hsv_fl_def Let_def)

lemma stale_cache_example:
  "fst (distance_yuv (0, 0, 0) ((BeadColor_init n (255, 255, 255))\<lparr>yuv := Some (0, 0, 0)\<rparr>)) = Inr 0"
  by (simp add: distance_yuv_def rgb2yuv_def math_sqrt_def)

lemma run_queries_inv:
  "cache_ok_fl rnd c \<Longrightarrow>
     cache_ok_fl rnd (run_queries rnd qs c) \<and> name (run_queries rnd qs c) = name c \<and>
     rgb (run_queries rnd qs c) = rgb c"
proof (induction qs arbitrary: c)
  case Nil
  then show ?case by simp
next
  case (Cons p qs)
  obtain t q where p: "p = (t, q)" by (cases p)
  from Cons.IH [OF get_distance_fl_cache_ok [OF Cons.prems, of t q]]
  show ?case by (simp add: p get_distance_fl_name_rgb)
qed

subsection \<open>With the rounding \<open>exact\<close> the two families agree\<close>

lemma math_sqrt_fl_exact: "math_sqrt_fl exact x = math_sqrt x"
  by (simp add: math_sqrt_fl_def math_sqrt_def exact_def)

lemma rgb2yuv_fl_exact: "rgb2yuv_fl exact c = rgb2yuv c"
  by (simp add: rgb2yuv_fl_def rgb2yuv_def exact_def split: prod.splits)

lemma float_mod1_exact: "float_mod1 exact x = frac x"
  by (simp add: float_mod1_def exact_def)

lemma rgb_to_hsv_fl_exact: "rgb_to_hsv_fl exact r g b = rgb_to_hsv r g b"
proof (cases "min r (min g b) = max r (max g b)")
  case True
  show ?thesis
    unfolding rgb_to_hsv_fl_def rgb_to_hsv_def Let_def by (simp only: True if_True simp_thms)
next
  case False
  then have ne: "max r (max g b) - min r (min g b) \<noteq> 0"
    by (simp only: right_minus_eq)
  show ?thesis
    unfolding rgb_to_hsv_fl_def rgb_to_hsv_def Let_def float_mod1_exact exact_def
    by (simp only: False ne if_False)
qed

lemma rgb2hsv_fl_exact: "rgb2hsv_fl exact c = rgb2hsv c"
  by (simp add: rgb2hsv_fl_def rgb2hsv_def rgb_to_hsv_fl_exact exact_def
        split: prod.splits sum.splits)

lemma distance_rgb_fl_exact: "distance_rgb_fl exact q c = distance_rgb q c"
  by (simp add: distance_rgb_fl_def distance_rgb_def math_sqrt_fl_exact Let_def split: prod.splits)
     (simp add: exact_def)

lemma distance_yuv_fl_exact: "distance_yuv_fl exact q c = distance_yuv q c"
  by (simp add: distance_yuv_fl_def distance_yuv_def math_sqrt_fl_exact rgb2yuv_fl_exact
        split: prod.splits option.splits)
     (simp add: exact_def)

lemma distance_hsv_fl_exact: "distance_hsv_fl exact q c = distance_hsv q c"
  by (simp add: distance_hsv_fl_def distance_hsv_def math_sqrt_fl_exact rgb2hsv_fl_exact Let_def
        split: prod.splits option.splits sum.splits)
     (simp add: exact_def)

lemma get_distance_fl_exact: "get_distance_fl exact t q c = get_distance t q c"
  by (simp add: get_distance_fl_def get_distance_def distance_rgb_fl_exact distance_yuv_fl_exact
        distance_hsv_fl_exact Let_def)

lemma cache_ok_fl_exact: "cache_ok_fl exact c = cache_ok c"
  by (simp add: cache_ok_fl_def cache_ok_def rgb2yuv_fl_exact rgb2hsv_fl_exact
        split: option.splits)

lemma distance_fl_exact: "distance_fl exact t a b = distance t a b"
  by (simp add: distance_fl_def distance_def get_distance_fl_exact)

subsection \<open>The scan of the palette\<close>




lemma closest_loop_cong:
  assumes "\<And>c. get_distance_fl rnd t q c = get_distance_fl rnd t' q c"
  shows "closest_loop rnd t q cs m b = closest_loop rnd t' q cs m b"
  by (induction cs arbitrary: m b) (auto simp: assms split: prod.splits sum.splits)



lemma get_closest_invalid:
  assumes "\<not> valid_tag t" and "palette \<noteq> []"
  shows "get_closest_fl rnd t q palette = (Inl ValueError, palette)"
  using assms by (cases palette) (simp_all add: get_closest_fl_def get_distance_fl_tag(4))

lemma get_closest_fl_empty: "get_closest_fl rnd t q [] = (Inr None, [])"
  by (simp add: get_closest_fl_def)



section \<open>The nearest entry\<close>





section \<open>The three distances\<close>

text \<open>
  Claim C3. For a palette colour \<open>(r1, g1, b1)\<close> and a query \<open>(r2, g2, b2)\<close> in
  \<open>[0, 255]\<close> the RGB distance is the square root of
  \<open>(2 + rmean/256) (r1 - r2)\<^sup>2 + 4 (g1 - g2)\<^sup>2 + (2 + (255 - rmean)/256) (b1 - b2)\<^sup>2\<close>
  with \<open>rmean = r1 + r2/2\<close>; this is not the formula with the mean \<open>(r1 + r2)/2\<close>, as
  the colour (100, 0, 0) against the query (0, 0, 0) shows.
\<close>

theorem distance_rgb_formula:
  assumes "rgb self = (r1, g1, b1)" and "in_range (r1, g1, b1)" and "in_range (r2, g2, b2)"
  shows "fst (distance_rgb (r2, g2, b2) self) =
           Inr (sqrt ((2 + (real_of_int r1 + real_of_int r2 / 2) / 256) * (real_of_int r1 - real_of_int r2)\<^sup>2
                      + 4 * (real_of_int g1 - real_of_int g2)\<^sup>2
                      + (2 + (255 - (real_of_int r1 + real_of_int r2 / 2)) / 256)
                          * (real_of_int b1 - real_of_int b2)\<^sup>2)) \<and>
         distance ''RGB'' (r1, g1, b1) (r2, g2, b2) = fst (distance_rgb (r2, g2, b2) self) \<and>
         fst (distance_rgb (0, 0, 0) (BeadColor_init n (100, 0, 0)))
           \<noteq> Inr (sqrt ((2 + ((100 + 0) / 2) / 256) * (100 - 0)\<^sup>2 + 4 * (0 - 0)\<^sup>2
                         + (2 + (255 - ((100 + 0) / 2)) / 256) * (0 - 0)\<^sup>2))"
proof -
  have r: "0 \<le> r1" "r1 \<le> 255" "0 \<le> r2" "r2 \<le> 255"
    using assms(2,3) by (simp_all add: in_range_def)
  have 1: "fst (distance_rgb (r2, g2, b2) self) =
           Inr (sqrt ((2 + (real_of_int r1 + real_of_int r2 / 2) / 256) * (real_of_int r1 - real_of_int r2)\<^sup>2
                      + 4 * (real_of_int g1 - real_of_int g2)\<^sup>2
                      + (2 + (255 - (real_of_int r1 + real_of_int r2 / 2)) / 256)
                          * (real_of_int b1 - real_of_int b2)\<^sup>2))"
    by (simp add: distance_rgb_value [OF assms(1) r])
  have "rgb (BeadColor_init [] (r1, g1, b1)) = (r1, g1, b1)"
    by (simp add: BeadColor_init_def)
  from distance_rgb_value [OF this r, of g2 b2] distance_rgb_value [OF assms(1) r, of g2 b2]
  have 2: "distance ''RGB'' (r1, g1, b1) (r2, g2, b2) = fst (distance_rgb (r2, g2, b2) self)"
    by (simp add: distance_def get_distance_def upper_def upper_char_def)
  have "rgb (BeadColor_init n (100, 0, 0)) = (100, 0, 0)"
    by (simp add: BeadColor_init_def)
  from distance_rgb_value [OF this, of 0 0 0]
  have 3: "fst (distance_rgb (0, 0, 0) (BeadColor_init n (100, 0, 0)))
           \<noteq> Inr (sqrt ((2 + ((100 + 0) / 2) / 256) * (100 - 0)\<^sup>2 + 4 * (0 - 0)\<^sup>2
                         + (2 + (255 - ((100 + 0) / 2)) / 256) * (0 - 0)\<^sup>2))"
    by simp
  from 1 2 3 show ?thesis by blast
qed

theorem distance_rgb_formula_witness:
  "rgb (BeadColor_init ''red'' (255, 0, 0)) = (255, 0, 0) \<and> in_range (255, 0, 0) \<and>
   in_range (250, 5, 5) \<and>
   fst (distance_rgb (250, 5, 5) (BeadColor_init ''red'' (255, 0, 0))) =
     Inr (sqrt ((2 + (255 + 250 / 2) / 256) * 25 + 4 * 25 + (2 + (255 - (255 + 250 / 2)) / 256) * 25))"
proof -
  have h1: "rgb (BeadColor_init ''red'' (255, 0, 0)) = (255, 0, 0)"
    by (simp add: BeadColor_init_def)
  have h2: "in_range (255, 0, 0)" and h3: "in_range (250, 5, 5)"
    by (simp_all add: in_range_def)
  from distance_rgb_formula [OF h1 h2 h3] h1 h2 h3 show ?thesis by simp
qed

text \<open>
  Claim C10. On \<open>[0, 255]\<close> both colour-dependent weights of the RGB distance are
  positive (\<open>rmean\<close> is at most 382.5), the radicand is not negative, and the distance
  returns a number that is not negative: \<^verbatim>\<open>math.sqrt\<close> does not raise.
\<close>

theorem distance_rgb_total:
  assumes "rgb self = (r1, g1, b1)" and "in_range (r1, g1, b1)" and "in_range (r2, g2, b2)"
  shows "(let rmean = real_of_int r1 + real_of_int r2 / 2;
              dr = real_of_int ((r1 - r2) ^ 2);
              dg = real_of_int ((g1 - g2) ^ 2);
              db = real_of_int ((b1 - b2) ^ 2)
          in 0 < 2 + rmean / 256 \<and>
             0 < 2 + (255 - rmean) / 256 \<and>
             rmean \<le> 382.5 \<and>
             0 \<le> ((2 + rmean / 256) * dr) + (4 * dg) + ((2 + (255 - rmean) / 256) * db)) \<and>
         (\<exists>d. distance_rgb (r2, g2, b2) self = (Inr d, self) \<and> 0 \<le> d)"
proof -
  have r: "0 \<le> r1" "r1 \<le> 255" "0 \<le> r2" "r2 \<le> 255"
    using assms(2,3) by (simp_all add: in_range_def)
  have m: "real_of_int r1 + real_of_int r2 / 2 \<le> 382.5"
    using r by simp
  from rgb_weights_pos [OF r] rgb_radicand_nonneg [OF r, of g1 g2 b1 b2] m
    distance_rgb_value [OF assms(1) r, of g2 b2]
  show ?thesis
    by (simp add: Let_def)
qed

theorem distance_rgb_total_witness:
  "rgb (BeadColor_init ''red'' (255, 0, 0)) = (255, 0, 0) \<and> in_range (255, 0, 0) \<and>
   in_range (255, 255, 255) \<and>
   (0::real) < 2 + (255 - (255 + 255 / 2)) / 256 \<and>
   (\<exists>d. distance_rgb (255, 255, 255) (BeadColor_init ''red'' (255, 0, 0))
           = (Inr d, BeadColor_init ''red'' (255, 0, 0)) \<and> 0 \<le> d)"
proof -
  have h1: "rgb (BeadColor_init ''red'' (255, 0, 0)) = (255, 0, 0)"
    by (simp add: BeadColor_init_def)
  have h2: "in_range (255, 0, 0)" and h3: "in_range (255, 255, 255)"
    by (simp_all add: in_range_def)
  from distance_rgb_total [OF h1 h2 h3] h1 h2 h3 show ?thesis by (simp add: Let_def)
qed

text \<open>
  Claim C6. The HSV distance is the square root of \<open>dh\<^sup>2 + ds\<^sup>2 + dv\<^sup>2\<close> with
  \<open>dh = min |h2 - h1| (360 - |h2 - h1|) / 180\<close>, \<open>ds = |s2 - s1|\<close> and
  \<open>dv = |v2 - v1|\<close>, on the HSV coordinates of the entry and of the query. The colours
  (6, 0, 1) and (6, 1, 0) have the hues 350 and 10 and equal saturation and value: their
  hue difference is 20, not 340, and their distance is 20/180.
\<close>

theorem distance_hsv_formula:
  assumes "cache_ok self" and "in_range (rgb self)" and "in_range rgb2"
  shows "(\<exists>h1 s1 v1 h2 s2 v2.
            rgb2hsv (rgb self) = Inr (h1, s1, v1) \<and> rgb2hsv rgb2 = Inr (h2, s2, v2) \<and>
            fst (distance_hsv rgb2 self) =
              Inr (sqrt ((min \<bar>h2 - h1\<bar> (360 - \<bar>h2 - h1\<bar>) / 180)\<^sup>2
                         + \<bar>s2 - s1\<bar>\<^sup>2 + \<bar>v2 - v1\<bar>\<^sup>2)) \<and>
            distance ''HSV'' (rgb self) rgb2 = fst (distance_hsv rgb2 self)) \<and>
         rgb2hsv (6, 0, 1) = Inr (350, 1, 2 / 85) \<and>
         rgb2hsv (6, 1, 0) = Inr (10, 1, 2 / 85) \<and>
         min \<bar>10 - 350\<bar> (360 - \<bar>10 - 350\<bar>) = (20::real) \<and>
         fst (distance_hsv (6, 1, 0) (BeadColor_init n (6, 0, 1))) = Inr (20 / 180)"
proof -
  obtain h1 s1 v1 where a: "rgb2hsv (rgb self) = Inr (h1, s1, v1)"
    using rgb2hsv_total [OF assms(2)] by (metis prod_cases3)
  obtain h2 s2 v2 where b: "rgb2hsv rgb2 = Inr (h2, s2, v2)"
    using rgb2hsv_total [OF assms(3)] by (metis prod_cases3)
  have 1: "fst (distance_hsv rgb2 self) =
      Inr (sqrt ((min \<bar>h2 - h1\<bar> (360 - \<bar>h2 - h1\<bar>) / 180)\<^sup>2 + \<bar>s2 - s1\<bar>\<^sup>2 + \<bar>v2 - v1\<bar>\<^sup>2))"
    using distance_hsv_value [OF cache_ok_hsv [OF assms(1) a] b]
    by (simp add: power2_eq_square)
  have 2: "distance ''HSV'' (rgb self) rgb2 = fst (distance_hsv rgb2 self)"
    using get_distance_eq_distance [OF assms(1), symmetric]
    by (simp add: get_distance_tag(3) canonical_tags)
  have "(case hsv (BeadColor_init n (6, 0, 1)) of None \<Rightarrow> rgb2hsv (rgb (BeadColor_init n (6, 0, 1)))
          | Some t \<Rightarrow> Inr t) = Inr (350, 1, 2 / 85)"
    by (simp add: BeadColor_init_def rgb2hsv_350)
  moreover have "sqrt (1 / 81) = 1 / 9"
    by (rule real_sqrt_unique) (simp_all add: power2_eq_square)
  ultimately have 3: "fst (distance_hsv (6, 1, 0) (BeadColor_init n (6, 0, 1))) = Inr (20 / 180)"
    using distance_hsv_value [OF _ rgb2hsv_10, of "BeadColor_init n (6, 0, 1)" 350 1 "2 / 85"]
    by simp
  from a b 1 2 3 rgb2hsv_350 rgb2hsv_10 show ?thesis by simp
qed

theorem distance_hsv_formula_witness:
  "cache_ok (BeadColor_init ''rose'' (6, 0, 1)) \<and> in_range (rgb (BeadColor_init ''rose'' (6, 0, 1))) \<and>
   in_range (6, 1, 0) \<and>
   fst (distance_hsv (6, 1, 0) (BeadColor_init ''rose'' (6, 0, 1)))
     = Inr (sqrt ((min \<bar>10 - 350\<bar> (360 - \<bar>10 - 350\<bar>) / 180)\<^sup>2))"
proof -
  have h1: "cache_ok (BeadColor_init ''rose'' (6, 0, 1))"
    by (simp add: cache_ok_def BeadColor_init_def)
  have h2: "in_range (rgb (BeadColor_init ''rose'' (6, 0, 1)))"
    by (simp add: in_range_def BeadColor_init_def)
  have h3: "in_range (6, 1, 0)"
    by (simp add: in_range_def)
  have "rgb (BeadColor_init ''rose'' (6, 0, 1)) = (6, 0, 1)"
    by (simp add: BeadColor_init_def)
  with distance_hsv_formula [OF h1 h2 h3, of "''rose''"] h1 h2 h3 show ?thesis
    by simp
qed

text \<open>
  Claim C9. The distance of an entry's own colour from the entry is zero in the three
  colour spaces.
\<close>

theorem self_distance_zero:
  assumes "cache_ok self" and "in_range (rgb self)"
  shows "fst (distance_rgb (rgb self) self) = Inr 0 \<and>
         fst (distance_yuv (rgb self) self) = Inr 0 \<and>
         fst (distance_hsv (rgb self) self) = Inr 0 \<and>
         distance ''RGB'' (rgb self) (rgb self) = Inr 0 \<and>
         distance ''YUV'' (rgb self) (rgb self) = Inr 0 \<and>
         distance ''HSV'' (rgb self) (rgb self) = Inr 0"
proof -
  obtain r1 g1 b1 where c: "rgb self = (r1, g1, b1)" by (cases "rgb self") auto
  have r: "0 \<le> r1" "r1 \<le> 255"
    using assms(2) c by (simp_all add: in_range_def)
  have 1: "fst (distance_rgb (rgb self) self) = Inr 0"
    using distance_rgb_value [OF c r r, of g1 b1] by (simp add: c)
  obtain y u v where y: "rgb2yuv (rgb self) = (y, u, v)" by (cases "rgb2yuv (rgb self)") auto
  have 2: "fst (distance_yuv (rgb self) self) = Inr 0"
    using distance_yuv_value [OF _ y, of self] cache_ok_yuv [OF assms(1)] y by simp
  obtain h s w where h: "rgb2hsv (rgb self) = Inr (h, s, w)"
    using rgb2hsv_total [OF assms(2)] by (metis prod_cases3)
  have 3: "fst (distance_hsv (rgb self) self) = Inr 0"
    using distance_hsv_value [OF cache_ok_hsv [OF assms(1) h] h] by simp
  have "distance ''RGB'' (rgb self) (rgb self) = fst (distance_rgb (rgb self) self)"
       "distance ''YUV'' (rgb self) (rgb self) = fst (distance_yuv (rgb self) self)"
       "distance ''HSV'' (rgb self) (rgb self) = fst (distance_hsv (rgb self) self)"
    using get_distance_eq_distance [OF assms(1), symmetric]
    by (simp_all add: get_distance_tag(1-3) canonical_tags)
  with 1 2 3 show ?thesis by simp
qed

theorem self_distance_zero_witness:
  "cache_ok (BeadColor_init ''teal'' (12, 200, 7)) \<and> in_range (rgb (BeadColor_init ''teal'' (12, 200, 7))) \<and>
   fst (distance_rgb (12, 200, 7) (BeadColor_init ''teal'' (12, 200, 7))) = Inr 0 \<and>
   fst (distance_yuv (12, 200, 7) (BeadColor_init ''teal'' (12, 200, 7))) = Inr 0 \<and>
   fst (distance_hsv (12, 200, 7) (BeadColor_init ''teal'' (12, 200, 7))) = Inr 0"
proof -
  have h1: "cache_ok (BeadColor_init ''teal'' (12, 200, 7))"
    by (simp add: cache_ok_def BeadColor_init_def)
  have h2: "in_range (rgb (BeadColor_init ''teal'' (12, 200, 7)))"
    by (simp add: in_range_def BeadColor_init_def)
  have "rgb (BeadColor_init ''teal'' (12, 200, 7)) = (12, 200, 7)"
    by (simp add: BeadColor_init_def)
  with self_distance_zero [OF h1 h2] h1 h2 show ?thesis by simp
qed

section \<open>The colour-space tag\<close>

text \<open>
  Claim C5. Every letter-case variant of \<^verbatim>\<open>RGB\<close>, \<^verbatim>\<open>YUV\<close> and \<^verbatim>\<open>HSV\<close> selects the
  distance of that name and gives what the upper-case tag gives, in \<^verbatim>\<open>get_distance\<close>
  and in \<^verbatim>\<open>get_closest\<close>. With any other tag of ASCII characters \<^verbatim>\<open>get_distance\<close>
  raises \<^verbatim>\<open>ValueError\<close> and leaves the entry as it was, and so does \<^verbatim>\<open>get_closest\<close>
  on a palette that is not empty. On the empty palette the claim asks for the same
  error, but there no distance is computed and the tag is never looked at:
  \<^verbatim>\<open>get_closest\<close> returns \<^verbatim>\<open>None\<close>, the defect of claim C2.
\<close>

theorem get_distance_dispatch:
  assumes "t1 \<in> set rgb_tags" and "t2 \<in> set yuv_tags" and "t3 \<in> set hsv_tags"
      and "\<not> valid_tag t4" and "ascii t4" and "palette \<noteq> []"
  shows "get_distance_fl rnd t1 q c = distance_rgb_fl rnd q c \<and>
         get_distance_fl rnd t2 q c = distance_yuv_fl rnd q c \<and>
         get_distance_fl rnd t3 q c = distance_hsv_fl rnd q c \<and>
         get_distance_fl rnd t1 q c = get_distance_fl rnd ''RGB'' q c \<and>
         get_distance_fl rnd t2 q c = get_distance_fl rnd ''YUV'' q c \<and>
         get_distance_fl rnd t3 q c = get_distance_fl rnd ''HSV'' q c \<and>
         get_closest_fl rnd t1 q palette = get_closest_fl rnd ''RGB'' q palette \<and>
         get_closest_fl rnd t2 q palette = get_closest_fl rnd ''YUV'' q palette \<and>
         get_closest_fl rnd t3 q palette = get_closest_fl rnd ''HSV'' q palette \<and>
         get_distance_fl rnd t4 q c = (Inl ValueError, c) \<and>
         get_closest_fl rnd t4 q palette = (Inl ValueError, palette) \<and>
         get_closest_fl rnd t4 q BeadPalette_init = (Inr None, [])"
proof -
  have "get_closest_fl rnd t1 q palette = get_closest_fl rnd ''RGB'' q palette"
       "get_closest_fl rnd t2 q palette = get_closest_fl rnd ''YUV'' q palette"
       "get_closest_fl rnd t3 q palette = get_closest_fl rnd ''HSV'' q palette"
    unfolding get_closest_fl_def
    by (rule closest_loop_cong, rule get_distance_fl_canonical, rule assms)+
  then show ?thesis
    using get_distance_fl_tag(1) [OF assms(1)] get_distance_fl_tag(2) [OF assms(2)]
      get_distance_fl_tag(3) [OF assms(3)] get_distance_fl_tag(4) [OF assms(4)]
      get_distance_fl_canonical(1) [OF assms(1)] get_distance_fl_canonical(2) [OF assms(2)]
      get_distance_fl_canonical(3) [OF assms(3)] get_closest_invalid [OF assms(4,6)]
      get_closest_fl_empty
    by (simp add: BeadPalette_init_def)
qed

theorem get_distance_dispatch_witness:
  "''rGb'' \<in> set rgb_tags \<and> ''Yuv'' \<in> set yuv_tags \<and> ''hsV'' \<in> set hsv_tags \<and>
   \<not> valid_tag ''XYZ'' \<and> ascii ''XYZ'' \<and> demo_palette \<noteq> [] \<and>
   get_distance_fl exact ''rGb'' (250, 5, 5) (BeadColor_init ''red'' (255, 0, 0))
     = get_distance_fl exact ''RGB'' (250, 5, 5) (BeadColor_init ''red'' (255, 0, 0)) \<and>
   get_distance_fl exact ''XYZ'' (250, 5, 5) (BeadColor_init ''red'' (255, 0, 0))
     = (Inl ValueError, BeadColor_init ''red'' (255, 0, 0)) \<and>
   get_closest_fl exact ''XYZ'' (250, 5, 5) demo_palette = (Inl ValueError, demo_palette) \<and>
   get_closest_fl exact ''XYZ'' (250, 5, 5) BeadPalette_init = (Inr None, [])"
proof -
  have h1: "''rGb'' \<in> set rgb_tags" and h2: "''Yuv'' \<in> set yuv_tags" and h3: "''hsV'' \<in> set hsv_tags"
    by (simp_all add: rgb_tags_def yuv_tags_def hsv_tags_def)
  have h4: "\<not> valid_tag ''XYZ''"
    by (simp add: valid_tag_def rgb_tags_def yuv_tags_def hsv_tags_def)
  have h5: "ascii ''XYZ''"
    by (simp add: ascii_def)
  have h6: "demo_palette \<noteq> []"
    by (simp add: demo_palette_def add_def)
  from get_distance_dispatch [where rnd = exact and q = "(250, 5, 5)"
      and c = "BeadColor_init ''red'' (255, 0, 0)", OF h1 h2 h3 h4 h5 h6]
    h1 h2 h3 h4 h5 h6
  show ?thesis
    by blast
qed

text \<open>The same at the tag \<^verbatim>\<open>XYZ\<close>, in exact arithmetic.\<close>

lemma get_closest_invalid_tag_empty:
  "\<not> valid_tag ''XYZ'' \<and> fst (get_closest ''XYZ'' (1, 2, 3) BeadPalette_init) = Inr None"
  by (simp add: valid_tag_def rgb_tags_def yuv_tags_def hsv_tags_def get_closest_def
        get_closest_fl_def BeadPalette_init_def)

section \<open>The caches\<close>

text \<open>
  Claim C7. Let \<open>self\<close> be an entry after any run of distance queries since it was
  built. Its caches started unset and are unset or hold the conversion of its own colour.
  A YUV query leaves the YUV conversion of the entry's colour in the YUV cache, whatever
  the query colour is, and changes nothing when the cache was set; likewise for HSV.
  Each of the two touches its own cache only, a cached value is never replaced, and an
  RGB query neither writes a cache nor depends on one. A YUV or HSV query against an
  entry whose cache is set computes its result from the cached coordinates and the
  conversion of the query, whatever the cache holds: the entry's colour is not converted
  again (an entry of colour white whose YUV cache holds the coordinates of black is at
  distance 0 from black). Every query returns what it returns on an entry just built.
\<close>

theorem cache_memoization:
  assumes "rounding rnd"
      and "trgb \<in> set rgb_tags" and "tyuv \<in> set yuv_tags" and "thsv \<in> set hsv_tags"
      and "in_range a"
      and "self = run_queries rnd qs (BeadColor_init n a)"
  shows "yuv (BeadColor_init n a) = None \<and> hsv (BeadColor_init n a) = None \<and>
         name self = n \<and> rgb self = a \<and> cache_ok_fl rnd self \<and>
         yuv (snd (get_distance_fl rnd tyuv q self)) = Some (rgb2yuv_fl rnd a) \<and>
         (\<exists>h. rgb2hsv_fl rnd a = Inr h \<and> hsv (snd (get_distance_fl rnd thsv q self)) = Some h) \<and>
         (yuv self \<noteq> None \<longrightarrow> snd (get_distance_fl rnd tyuv q self) = self) \<and>
         (hsv self \<noteq> None \<longrightarrow> snd (get_distance_fl rnd thsv q self) = self) \<and>
         hsv (snd (get_distance_fl rnd tyuv q self)) = hsv self \<and>
         yuv (snd (get_distance_fl rnd thsv q self)) = yuv self \<and>
         snd (get_distance_fl rnd trgb q self) = self \<and>
         fst (get_distance_fl rnd trgb q (self\<lparr>yuv := x, hsv := y\<rparr>))
           = fst (get_distance_fl rnd trgb q self) \<and>
         yuv (snd (get_distance_fl rnd t q (e\<lparr>yuv := Some x'\<rparr>))) = Some x' \<and>
         hsv (snd (get_distance_fl rnd t q (e\<lparr>hsv := Some y'\<rparr>))) = Some y' \<and>
         fst (get_distance_fl rnd tyuv q (e\<lparr>yuv := Some (y1, u1, v1)\<rparr>)) =
           (case rgb2yuv_fl rnd q of (y2, u2, v2) \<Rightarrow>
              math_sqrt_fl rnd (rnd (rnd (rnd ((rnd (y1 - y2))\<^sup>2) + rnd ((rnd (u1 - u2))\<^sup>2))
                                     + rnd ((rnd (v1 - v2))\<^sup>2)))) \<and>
         fst (get_distance_fl rnd thsv q (e\<lparr>hsv := Some (h1, s1, v1)\<rparr>)) =
           (case rgb2hsv_fl rnd q of
              Inl err \<Rightarrow> Inl err
            | Inr (h2, s2, v2) \<Rightarrow>
                math_sqrt_fl rnd
                  (rnd (rnd (rnd (rnd (min \<bar>rnd (h2 - h1)\<bar> (rnd (360 - \<bar>rnd (h2 - h1)\<bar>)) / 180)
                                  * rnd (min \<bar>rnd (h2 - h1)\<bar> (rnd (360 - \<bar>rnd (h2 - h1)\<bar>)) / 180))
                             + rnd (\<bar>rnd (s2 - s1)\<bar> * \<bar>rnd (s2 - s1)\<bar>))
                        + rnd (\<bar>rnd (v2 - v1)\<bar> * \<bar>rnd (v2 - v1)\<bar>)))) \<and>
         fst (distance_yuv (0, 0, 0) ((BeadColor_init n (255, 255, 255))\<lparr>yuv := Some (0, 0, 0)\<rparr>))
           = Inr 0 \<and>
         fst (get_distance_fl rnd t q self) = distance_fl rnd t a q"
proof -
  have fresh: "cache_ok_fl rnd (BeadColor_init n a)" "name (BeadColor_init n a) = n"
    "rgb (BeadColor_init n a) = a" "yuv (BeadColor_init n a) = None" "hsv (BeadColor_init n a) = None"
    by (simp_all add: BeadColor_init_def cache_ok_fl_def)
  from run_queries_inv [OF fresh(1), of qs] fresh(2,3) assms(6)
  have inv: "cache_ok_fl rnd self" "name self = n" "rgb self = a"
    by simp_all
  obtain h where h: "rgb2hsv_fl rnd a = Inr h"
    using rgb2hsv_fl_total [OF assms(1,5)] by blast
  have y1: "yuv (snd (get_distance_fl rnd tyuv q self)) = Some (rgb2yuv_fl rnd a)"
    using inv(1,3)
    by (simp add: get_distance_fl_tag(2) [OF assms(3)] snd_distance_yuv_fl cache_ok_fl_def
          split: option.splits)
  have h1': "hsv (snd (get_distance_fl rnd thsv q self)) = Some h"
    using inv(1,3) h
    by (simp add: get_distance_fl_tag(3) [OF assms(4)] snd_distance_hsv_fl cache_ok_fl_def
          split: option.splits)
  have ex: "\<exists>h. rgb2hsv_fl rnd a = Inr h \<and> hsv (snd (get_distance_fl rnd thsv q self)) = Some h"
    using h h1' by blast
  have y2: "yuv self \<noteq> None \<longrightarrow> snd (get_distance_fl rnd tyuv q self) = self"
    by (auto simp: get_distance_fl_tag(2) [OF assms(3)] snd_distance_yuv_fl)
  have h2': "hsv self \<noteq> None \<longrightarrow> snd (get_distance_fl rnd thsv q self) = self"
    by (auto simp: get_distance_fl_tag(3) [OF assms(4)] snd_distance_hsv_fl)
  have o1: "hsv (snd (get_distance_fl rnd tyuv q self)) = hsv self"
    by (simp add: get_distance_fl_tag(2) [OF assms(3)] snd_distance_yuv_fl)
  have o2: "yuv (snd (get_distance_fl rnd thsv q self)) = yuv self"
    by (simp add: get_distance_fl_tag(3) [OF assms(4)] snd_distance_hsv_fl
          split: option.splits sum.splits)
  have r1: "snd (get_distance_fl rnd trgb q self) = self"
    by (simp add: get_distance_fl_tag(1) [OF assms(2)] snd_distance_rgb_fl)
  have r2: "fst (get_distance_fl rnd trgb q (self\<lparr>yuv := x, hsv := y\<rparr>))
              = fst (get_distance_fl rnd trgb q self)"
    by (simp add: get_distance_fl_tag(1) [OF assms(2)] fst_distance_rgb_fl_cache)
  have c1: "fst (get_distance_fl rnd tyuv q (e\<lparr>yuv := Some (y1, u1, v1)\<rparr>)) =
           (case rgb2yuv_fl rnd q of (y2, u2, v2) \<Rightarrow>
              math_sqrt_fl rnd (rnd (rnd (rnd ((rnd (y1 - y2))\<^sup>2) + rnd ((rnd (u1 - u2))\<^sup>2))
                                     + rnd ((rnd (v1 - v2))\<^sup>2))))"
    by (simp only: get_distance_fl_tag(2) [OF assms(3)] distance_yuv_fl_cached)
  have c2: "fst (get_distance_fl rnd thsv q (e\<lparr>hsv := Some (h1, s1, v1)\<rparr>)) =
           (case rgb2hsv_fl rnd q of
              Inl err \<Rightarrow> Inl err
            | Inr (h2, s2, v2) \<Rightarrow>
                math_sqrt_fl rnd
                  (rnd (rnd (rnd (rnd (min \<bar>rnd (h2 - h1)\<bar> (rnd (360 - \<bar>rnd (h2 - h1)\<bar>)) / 180)
                                  * rnd (min \<bar>rnd (h2 - h1)\<bar> (rnd (360 - \<bar>rnd (h2 - h1)\<bar>)) / 180))
                             + rnd (\<bar>rnd (s2 - s1)\<bar> * \<bar>rnd (s2 - s1)\<bar>))
                        + rnd (\<bar>rnd (v2 - v1)\<bar> * \<bar>rnd (v2 - v1)\<bar>))))"
    by (simp only: get_distance_fl_tag(3) [OF assms(4)] distance_hsv_fl_cached)
  have hist: "fst (get_distance_fl rnd t q self) = distance_fl rnd t a q"
    using get_distance_fl_eq_distance [OF inv(1), of t q] inv(3) by simp
  from fresh(4,5) inv y1 ex y2 h2' o1 o2 r1 r2 c1 c2 hist get_distance_fl_keeps_cache
    stale_cache_example
  show ?thesis by blast
qed

theorem cache_memoization_witness:
  "rounding exact \<and>
   ''rgb'' \<in> set rgb_tags \<and> ''yuv'' \<in> set yuv_tags \<and> ''hsv'' \<in> set hsv_tags \<and>
   in_range (10, 20, 30) \<and>
   yuv (run_queries exact [(''yuv'', (1, 2, 3))] (BeadColor_init ''c'' (10, 20, 30))) \<noteq> None \<and>
   snd (get_distance_fl exact ''yuv'' (7, 8, 9)
          (run_queries exact [(''yuv'', (1, 2, 3))] (BeadColor_init ''c'' (10, 20, 30))))
     = run_queries exact [(''yuv'', (1, 2, 3))] (BeadColor_init ''c'' (10, 20, 30)) \<and>
   fst (get_distance_fl exact ''hsv'' (7, 8, 9)
          (run_queries exact [(''yuv'', (1, 2, 3))] (BeadColor_init ''c'' (10, 20, 30))))
     = distance_fl exact ''hsv'' (10, 20, 30) (7, 8, 9)"
proof -
  have h1: "''rgb'' \<in> set rgb_tags" and h2: "''yuv'' \<in> set yuv_tags" and h3: "''hsv'' \<in> set hsv_tags"
    by (simp_all add: rgb_tags_def yuv_tags_def hsv_tags_def)
  have h4: "in_range (10, 20, 30)"
    by (simp add: in_range_def)
  have h5: "BeadColor_init ''c'' (10, 20, 30) = run_queries exact [] (BeadColor_init ''c'' (10, 20, 30))"
    by simp
  from cache_memoization [where q = "(1, 2, 3)", OF rounding_exact h1 h2 h3 h4 h5]
  have filled: "yuv (run_queries exact [(''yuv'', (1, 2, 3))] (BeadColor_init ''c'' (10, 20, 30))) \<noteq> None"
    by simp
  from cache_memoization [where qs = "[(''yuv'', (1, 2, 3))]" and n = "''c''" and q = "(7, 8, 9)"
      and t = "''hsv''", OF rounding_exact h1 h2 h3 h4 refl]
    filled rounding_exact h1 h2 h3 h4
  show ?thesis by blast
qed

section \<open>The label colour\<close>

text \<open>
  Claim C8. \<^verbatim>\<open>get_textcolor\<close> answers white when the sum of the three components is
  at most 384 and black when it is larger; so white on white (255,255,255) gives black,
  black (0,0,0) gives white, and the boundary (128,128,128), of sum 384, gives white.
\<close>

theorem get_textcolor_threshold:
  assumes "rgb self = (r, g, b)"
  shows "(r + g + b \<le> 384 \<longrightarrow> get_textcolor self = white) \<and>
         (r + g + b > 384 \<longrightarrow> get_textcolor self = black) \<and>
         get_textcolor (BeadColor_init n (255, 255, 255)) = black \<and>
         get_textcolor (BeadColor_init n (0, 0, 0)) = white \<and>
         get_textcolor (BeadColor_init n (128, 128, 128)) = white \<and>
         white \<noteq> black"
  using assms by (simp add: get_textcolor_def BeadColor_init_def white_def black_def)

theorem get_textcolor_threshold_witness:
  "rgb (BeadColor_init ''grey'' (128, 128, 128)) = (128, 128, 128) \<and>
   (128 + 128 + 128 \<le> (384::int)) \<and>
   get_textcolor (BeadColor_init ''grey'' (128, 128, 128)) = white \<and>
   get_textcolor (BeadColor_init ''snow'' (255, 255, 255)) = black"
  using get_textcolor_threshold [of "BeadColor_init ''grey'' (128, 128, 128)" 128 128 128 "''snow''"]
  by (simp add: BeadColor_init_def)

section \<open>The empty palette\<close>

text \<open>
  Claim C2 asks for an error on a palette with no entry. In the source the loop body
  never runs there: \<^verbatim>\<open>get_closest\<close> raises nothing and returns \<^verbatim>\<open>None\<close>, the initial
  value of \<^verbatim>\<open>best_color\<close>, whatever the tag and the query are, although its signature
  announces a \<^verbatim>\<open>BeadColor\<close> and its caller reads the fields of the result at once.
\<close>

theorem get_closest_empty:
  "get_closest color_space rgb2 BeadPalette_init = (Inr None, [])"
  by (simp add: get_closest_def get_closest_fl_def BeadPalette_init_def)

text \<open>
  The call on the empty palette with the tag \<^verbatim>\<open>rgb\<close> does not raise: its result is the
  value \<^verbatim>\<open>None\<close>.
\<close>

lemma get_closest_empty_rgb:
  "\<not> isl (fst (get_closest ''rgb'' (10, 20, 30) BeadPalette_init)) \<and>
   fst (get_closest ''rgb'' (10, 20, 30) BeadPalette_init) = Inr None"
  by (simp add: get_closest_def get_closest_fl_def BeadPalette_init_def)

end
